theory Spec2Isabelle
  imports Main
begin

section \<open>Python strings and the interpreter's character tables\<close>

text \<open>
  A Python \<open>str\<close> is a sequence of Unicode code points. The two parsers of \<open>bot.py\<close>
  (\<open>parse_copies\<close> and the computation of \<open>ALLOWED_USER_IDS\<close>) depend on how the
  interpreter classifies characters, so a string is a list of code points and an ASCII
  literal of the source is written \<open>ascii ''...''\<close>.
\<close>

type_synonym py_str = "nat list"

definition ascii :: "string \<Rightarrow> py_str" where
  "ascii s = map of_char s"

text \<open>
  The classes of the ASCII range are fixed by the language and written out below. The
  Unicode tables for code points from 128 on are not part of the repository: they are a
  parameter. \<open>uc_class\<close> gives each such code point one class:
  \<^item> \<open>Decimal d\<close>: a decimal digit of value \<open>d\<close> (category Nd; \<open>\d\<close>, \<open>isdigit\<close>,
    accepted by \<open>int\<close>);
  \<^item> \<open>Digit\<close>: a digit that is not decimal, such as a superscript digit (\<open>isdigit\<close>
    holds, \<open>\d\<close> does not match, \<open>int\<close> rejects it);
  \<^item> \<open>Space\<close>: whitespace (\<open>\s\<close>);
  \<^item> \<open>Alnum\<close>: any other alphanumeric character (\<open>\w\<close>);
  \<^item> \<open>Other\<close>: everything else.
  \<open>uc_lower s i\<close> is what \<open>str.lower\<close> puts in place of the non-ASCII character at
  index \<open>i\<close> of \<open>s\<close> (the mapping may be several code points long and, for capital
  sigma, depends on the neighbours). \<open>int_max_str_digits\<close> is the interpreter's limit on
  the length of a decimal string that \<open>int\<close> converts; 0 stands for no limit.
\<close>

datatype uclass = Decimal nat | Digit | Space | Alnum | Other

record py_runtime =
  uc_class :: "nat \<Rightarrow> uclass"
  uc_lower :: "py_str \<Rightarrow> nat \<Rightarrow> py_str"
  int_max_str_digits :: nat

definition char_class :: "py_runtime \<Rightarrow> nat \<Rightarrow> uclass" where
  "char_class rt c =
     (if c < 128 then
        (if 48 \<le> c \<and> c \<le> 57 then Decimal (c - 48)
         else if (9 \<le> c \<and> c \<le> 13) \<or> (28 \<le> c \<and> c \<le> 32) then Space
         else if (65 \<le> c \<and> c \<le> 90) \<or> (97 \<le> c \<and> c \<le> 122) then Alnum
         else Other)
      else uc_class rt c)"

text \<open>\<open>\d\<close> of a \<open>str\<close> pattern, and \<open>str.isdecimal\<close>.\<close>

definition is_decimal :: "py_runtime \<Rightarrow> nat \<Rightarrow> bool" where
  "is_decimal rt c = (case char_class rt c of Decimal d \<Rightarrow> True | _ \<Rightarrow> False)"

text \<open>The test \<open>str.isdigit\<close> applies to each character.\<close>

definition is_digit :: "py_runtime \<Rightarrow> nat \<Rightarrow> bool" where
  "is_digit rt c = (case char_class rt c of Decimal d \<Rightarrow> True | Digit \<Rightarrow> True | _ \<Rightarrow> False)"

text \<open>\<open>\s\<close> of a \<open>str\<close> pattern.\<close>

definition is_space :: "py_runtime \<Rightarrow> nat \<Rightarrow> bool" where
  "is_space rt c = (case char_class rt c of Space \<Rightarrow> True | _ \<Rightarrow> False)"

text \<open>\<open>\w\<close> of a \<open>str\<close> pattern: alphanumeric characters and the underscore.\<close>

definition is_word :: "py_runtime \<Rightarrow> nat \<Rightarrow> bool" where
  "is_word rt c =
     (c = 95 \<or> (case char_class rt c of Decimal d \<Rightarrow> True | Digit \<Rightarrow> True
                                      | Alnum \<Rightarrow> True | _ \<Rightarrow> False))"

definition decimal_value :: "py_runtime \<Rightarrow> nat \<Rightarrow> nat" where
  "decimal_value rt c = (case char_class rt c of Decimal d \<Rightarrow> d | _ \<Rightarrow> 0)"

subsection \<open>\<open>str.lower\<close>\<close>

definition lower_at :: "py_runtime \<Rightarrow> py_str \<Rightarrow> nat \<Rightarrow> py_str" where
  "lower_at rt s i =
     (let c = s ! i in
      if c < 128 then [if 65 \<le> c \<and> c \<le> 90 then c + 32 else c]
      else uc_lower rt s i)"

definition py_lower :: "py_runtime \<Rightarrow> py_str \<Rightarrow> py_str" where
  "py_lower rt s = concat (map (lower_at rt s) [0..<length s])"

subsection \<open>\<open>int\<close> on a string of digits\<close>

text \<open>
  Both calls of \<open>int\<close> in \<open>bot.py\<close> pass a string that went through a digit test
  (\<open>\d+\<close> or \<open>isdigit\<close>), so it holds no sign, blank or underscore. On such a string
  \<open>int\<close> raises \<open>ValueError\<close> when a character is not a decimal digit or when the
  string is longer than the interpreter's limit (which applies above 640 digits only),
  and returns the decimal value otherwise.
\<close>

datatype value_error = ValueError

definition py_int :: "py_runtime \<Rightarrow> py_str \<Rightarrow> value_error + int" where
  "py_int rt s =
     (if s \<noteq> [] \<and> list_all (is_decimal rt) s then
        (if 640 < length s \<and> 0 < int_max_str_digits rt \<and> int_max_str_digits rt < length s
         then Inl ValueError
         else Inr (int (foldl (\<lambda>acc c. 10 * acc + decimal_value rt c) 0 s)))
      else Inl ValueError)"

section \<open>The copy-count parser\<close>

text \<open>
  \<open>re.search(r'(?:x|\bcopies\s*=\s*)(\d+)', caption)\<close>, returning group 1 of the match.
  The search tries each start position from the left; at a position it tries the
  alternative \<open>x\<close> first and \<open>\bcopies\s*=\s*\<close> second. The three repetitions are
  greedy, and no shorter repetition can succeed where the longest fails: the character
  after a run of \<open>\s\<close> is compared with \<open>=\<close> or \<open>\d\<close>, neither of which is
  whitespace, and nothing follows \<open>\d+\<close>.
\<close>

definition digits_at :: "py_runtime \<Rightarrow> py_str \<Rightarrow> py_str option" where
  "digits_at rt s =
     (let ds = takeWhile (is_decimal rt) s in if ds = [] then None else Some ds)"

fun alt_x :: "py_runtime \<Rightarrow> py_str \<Rightarrow> py_str option" where
  "alt_x rt [] = None"
| "alt_x rt (c # cs) = (if c = 120 then digits_at rt cs else None)"

text \<open>
  \<open>\b\<close> holds where exactly one of the characters before and after the position is a
  word character; \<open>pw\<close> tells whether the character before is one (False at the start).
\<close>

definition word_boundary :: "py_runtime \<Rightarrow> bool \<Rightarrow> py_str \<Rightarrow> bool" where
  "word_boundary rt pw s = (pw \<noteq> (case s of [] \<Rightarrow> False | c # cs \<Rightarrow> is_word rt c))"

definition alt_copies :: "py_runtime \<Rightarrow> bool \<Rightarrow> py_str \<Rightarrow> py_str option" where
  "alt_copies rt pw s =
     (if word_boundary rt pw s \<and> take 6 s = ascii ''copies'' then
        (case dropWhile (is_space rt) (drop 6 s) of
           [] \<Rightarrow> None
         | c # cs \<Rightarrow> if c = 61 then digits_at rt (dropWhile (is_space rt) cs) else None)
      else None)"

definition match_at :: "py_runtime \<Rightarrow> bool \<Rightarrow> py_str \<Rightarrow> py_str option" where
  "match_at rt pw s = (case alt_x rt s of Some g \<Rightarrow> Some g | None \<Rightarrow> alt_copies rt pw s)"

fun search_from :: "py_runtime \<Rightarrow> bool \<Rightarrow> py_str \<Rightarrow> py_str option" where
  "search_from rt pw [] = match_at rt pw []"
| "search_from rt pw (c # cs) =
     (case match_at rt pw (c # cs) of
        Some g \<Rightarrow> Some g
      | None \<Rightarrow> search_from rt (is_word rt c) cs)"

definition re_search :: "py_runtime \<Rightarrow> py_str \<Rightarrow> py_str option" where
  "re_search rt s = search_from rt False s"

text \<open>
  \<open>parse_copies\<close>: an absent or empty caption gives 1; so does a caption without a match
  and a match whose conversion raises \<open>ValueError\<close> (the \<open>except\<close> clause passes and
  control reaches the final \<open>return 1\<close>).
\<close>

definition parse_copies :: "py_runtime \<Rightarrow> py_str option \<Rightarrow> int" where
  "parse_copies rt caption =
     (case caption of
        None \<Rightarrow> 1
      | Some cap \<Rightarrow>
          if cap = [] then 1
          else (case re_search rt (py_lower rt cap) of
                  Some g \<Rightarrow> (case py_int rt g of
                               Inr copies \<Rightarrow> max 1 copies
                             | Inl ValueError \<Rightarrow> 1)
                | None \<Rightarrow> 1))"

section \<open>The allow-list\<close>

text \<open>\<open>s.split(',')\<close>: the fields between the separators; the empty string has one empty field.\<close>

fun split_sep :: "nat \<Rightarrow> py_str \<Rightarrow> py_str list" where
  "split_sep sep [] = [[]]"
| "split_sep sep (c # cs) =
     (if c = sep then [] # split_sep sep cs
      else (case split_sep sep cs of
              [] \<Rightarrow> [[c]]
            | f # fs \<Rightarrow> (c # f) # fs))"

text \<open>\<open>str.isdigit\<close>: at least one character, and every character a digit.\<close>

definition isdigit :: "py_runtime \<Rightarrow> py_str \<Rightarrow> bool" where
  "isdigit rt s = (s \<noteq> [] \<and> list_all (is_digit rt) s)"

text \<open>A list comprehension \<open>[int(f) for f in fs]\<close>: the first conversion that raises ends it.\<close>

fun int_each :: "py_runtime \<Rightarrow> py_str list \<Rightarrow> value_error + int list" where
  "int_each rt [] = Inr []"
| "int_each rt (f # fs) =
     (case py_int rt f of
        Inl e \<Rightarrow> Inl e
      | Inr n \<Rightarrow> (case int_each rt fs of Inl e \<Rightarrow> Inl e | Inr ns \<Rightarrow> Inr (n # ns)))"

text \<open>
  Lines 25 and 26 of \<open>bot.py\<close>, run when the module is loaded. The argument is the value
  of the environment variable \<open>ALLOWED_USER_IDS\<close> (None when it is not set, and then
  \<open>os.getenv\<close> gives the default \<open>""\<close>). \<open>Inl ValueError\<close> is the exception leaving
  the module, which keeps the bot from starting.
\<close>

definition load_allowed_user_ids :: "py_runtime \<Rightarrow> py_str option \<Rightarrow> value_error + int list" where
  "load_allowed_user_ids rt var =
     (let fields = split_sep 44 (case var of None \<Rightarrow> [] | Some s \<Rightarrow> s)
      in int_each rt (filter (isdigit rt) fields))"

section \<open>Configuration, constants and the outside world\<close>

record config =
  CUPS_PRINTER_NAME :: "py_str option"
  CUPS_SERVER_HOST :: "py_str option"
  ALLOWED_USER_IDS :: "int list"

definition LABEL_WIDTH_INCHES :: nat where "LABEL_WIDTH_INCHES = 4"
definition LABEL_HEIGHT_INCHES :: nat where "LABEL_HEIGHT_INCHES = 6"
definition IMAGE_DPI :: nat where "IMAGE_DPI = 300"
definition LABEL_WIDTH_PX :: nat where "LABEL_WIDTH_PX = LABEL_WIDTH_INCHES * IMAGE_DPI"
definition LABEL_HEIGHT_PX :: nat where "LABEL_HEIGHT_PX = LABEL_HEIGHT_INCHES * IMAGE_DPI"

text \<open>\<open>str(n)\<close> for an integer.\<close>

fun nat_digits :: "nat \<Rightarrow> py_str" where
  "nat_digits n = (if n < 10 then [48 + n] else nat_digits (n div 10) @ [48 + n mod 10])"

definition str_int :: "int \<Rightarrow> py_str" where
  "str_int i = (if i < 0 then 45 # nat_digits (nat (- i)) else nat_digits (nat i))"

text \<open>
  Exceptions of the dispatcher: \<open>subprocess.CalledProcessError\<close> with its fields, and
  any other \<open>Exception\<close> \<open>e\<close>, of which the code only uses \<open>str(e)\<close>.
\<close>

datatype py_exn =
    CalledProcessError "py_str list" int py_str py_str
  | Exception py_str

text \<open>
  What \<open>subprocess.run(cmd, capture_output=True, text=True, check=True)\<close> meets:
  \<^item> \<open>Exited rc out err\<close>: the process ran and exited with status \<open>rc\<close>, and its
    captured output decoded as text to \<open>out\<close> and \<open>err\<close>; the call returns if \<open>rc\<close>
    is 0 and raises \<open>CalledProcessError\<close> otherwise;
  \<^item> \<open>Undecodable rc msg\<close>: the process ran and exited with status \<open>rc\<close>, and the
    decoding of its captured output, which \<open>text=True\<close> asks for and which comes before
    the exit status is looked at, raised \<open>UnicodeDecodeError\<close> with message \<open>msg\<close>;
  \<^item> \<open>NotRun msg\<close>: the call raised before any exit status existed (the executable
    was not found, say).
\<close>

datatype run_result =
    Exited int py_str py_str
  | Undecodable int py_str
  | NotRun py_str

type_synonym bytes = "nat list"

record image =
  mode :: py_str
  width :: nat
  height :: nat

text \<open>
  The collaborators that are not part of the repository, as parameters: the chat
  platform's file download, the imaging library (\<open>Image.open\<close>, \<open>Image.thumbnail\<close>,
  \<open>Image.save\<close>), the creation and writing of the temporary file, and the print
  command. Each may raise where the library may.
\<close>

record env =
  download :: "nat \<Rightarrow> bytes"
  image_open :: "bytes \<Rightarrow> py_exn + image"
  image_thumbnail :: "nat \<times> nat \<Rightarrow> image \<Rightarrow> py_exn + image"
  image_save :: "image \<Rightarrow> py_str \<Rightarrow> py_exn + bytes"
  tempfile_create :: "py_str \<Rightarrow> py_exn + py_str"
  tempfile_write :: "py_str \<Rightarrow> bytes \<Rightarrow> py_exn option"
  subprocess_run :: "py_str list \<Rightarrow> run_result"

text \<open>
  The observable state: the paths that exist on disk, and the trace of what the bot did
  (log records by level, replies to the chat, downloads, calls of the normalizer and
  calls of \<open>subprocess.run\<close> with their command line), oldest first.
\<close>

datatype level = INFO | WARNING | ERROR

datatype event =
    Log level
  | ReplyText py_str
  | ReplyHtml py_str
  | Download nat
  | Resize
  | Spawn "py_str list"

record world =
  files :: "py_str set"
  events :: "event list"

definition emit :: "event \<Rightarrow> world \<Rightarrow> world" where
  "emit e w = w\<lparr>events := events w @ [e]\<rparr>"

section \<open>The image normalizer\<close>

text \<open>Line 55: \<open>'PNG' if img.mode == 'RGBA' or 'P' in img.mode else 'JPEG'\<close>.\<close>

definition img_format :: "py_str \<Rightarrow> py_str" where
  "img_format m = (if m = ascii ''RGBA'' \<or> 80 \<in> set m then ascii ''PNG'' else ascii ''JPEG'')"

text \<open>
  \<open>resize_image\<close>: every exception of the \<open>try\<close> block is logged and turned into
  the result \<open>(None, None)\<close>, here \<open>None\<close>.
\<close>

definition resize_image ::
  "py_runtime \<Rightarrow> env \<Rightarrow> bytes \<Rightarrow> world \<Rightarrow> (bytes \<times> py_str) option \<times> world" where
  "resize_image rt en image_bytes w0 =
     (let w = emit Resize w0 in
      case image_open en image_bytes of
        Inl e \<Rightarrow> (None, emit (Log ERROR) w)
      | Inr img0 \<Rightarrow>
          (case image_thumbnail en (LABEL_WIDTH_PX, LABEL_HEIGHT_PX) img0 of
             Inl e \<Rightarrow> (None, emit (Log ERROR) w)
           | Inr img \<Rightarrow>
               (let fmt = img_format (mode img) in
                case image_save en img fmt of
                  Inl e \<Rightarrow> (None, emit (Log ERROR) w)
                | Inr output_buffer \<Rightarrow> (Some (output_buffer, py_lower rt fmt), w))))"

section \<open>The print dispatcher\<close>

text \<open>Python's truth value of an optional string: None and \<open>""\<close> are false.\<close>

definition truthy :: "py_str option \<Rightarrow> bool" where
  "truthy s = (case s of None \<Rightarrow> False | Some t \<Rightarrow> t \<noteq> [])"

definition lp_command :: "config \<Rightarrow> py_str \<Rightarrow> int \<Rightarrow> py_str list" where
  "lp_command cfg printer_name copies =
     [ascii ''lp'']
     @ (case CUPS_SERVER_HOST cfg of
          None \<Rightarrow> []
        | Some h \<Rightarrow> if h = [] then [] else [ascii ''-h'', h])
     @ [ascii ''-d'', printer_name]
     @ [ascii ''-n'', str_int copies]
     @ [ascii ''-o'',
        ascii ''media=Custom.'' @ str_int (int LABEL_WIDTH_INCHES) @ ascii ''x''
          @ str_int (int LABEL_HEIGHT_INCHES) @ ascii ''in'']
     @ [ascii ''-o'', ascii ''fit-to-page'']"

text \<open>
  The body of the \<open>with\<close> statement (lines 84 to 93), once the temporary file exists
  at \<open>path\<close>: \<open>Inr\<close> is the value of the \<open>return\<close>, \<open>Inl\<close> the exception that
  leaves the block.
\<close>

definition with_body ::
  "env \<Rightarrow> py_str list \<Rightarrow> bytes \<Rightarrow> py_str \<Rightarrow> world \<Rightarrow> (py_exn + bool \<times> py_str) \<times> world" where
  "with_body en cmd0 image_buffer path w =
     (case tempfile_write en path image_buffer of
        Some e \<Rightarrow> (Inl e, w)
      | None \<Rightarrow>
          (let cmd = cmd0 @ [path];
               w1 = emit (Spawn cmd) (emit (Log INFO) w)
           in case subprocess_run en cmd of
                NotRun msg \<Rightarrow> (Inl (Exception msg), w1)
              | Undecodable rc msg \<Rightarrow> (Inl (Exception msg), w1)
              | Exited rc out err \<Rightarrow>
                  if rc = 0 then (Inr (True, out), emit (Log INFO) (emit (Log INFO) w1))
                  else (Inl (CalledProcessError cmd rc out err), w1)))"

text \<open>The two \<open>except\<close> clauses (lines 94 to 102).\<close>

fun handle_exn :: "py_exn \<Rightarrow> world \<Rightarrow> (bool \<times> py_str) \<times> world" where
  "handle_exn (CalledProcessError cmd rc out err) w =
     ((False, err), emit (Log ERROR) (emit (Log ERROR) (emit (Log ERROR) (emit (Log ERROR) w))))"
| "handle_exn (Exception msg) w = ((False, msg), emit (Log ERROR) w)"

text \<open>
  \<open>print_image_cups\<close>. \<open>NamedTemporaryFile(suffix=..., delete=True)\<close> creates the file,
  or raises and creates nothing; leaving the \<open>with\<close> block, by \<open>return\<close> or by an
  exception, closes the file, which deletes it. The exception, if any, then reaches the
  \<open>except\<close> clauses. The print command is taken not to touch the temporary file.
\<close>

definition print_image_cups ::
  "config \<Rightarrow> env \<Rightarrow> bytes \<Rightarrow> py_str \<Rightarrow> int \<Rightarrow> py_str \<Rightarrow> world \<Rightarrow> (bool \<times> py_str) \<times> world" where
  "print_image_cups cfg en image_buffer printer_name copies image_format w =
     (let cmd0 = lp_command cfg printer_name copies in
      case tempfile_create en (ascii ''.'' @ image_format) of
        Inl e \<Rightarrow> handle_exn e w
      | Inr path \<Rightarrow>
          (let w1 = w\<lparr>files := insert path (files w)\<rparr>;
               (r, w2) = with_body en cmd0 image_buffer path w1;
               w3 = w2\<lparr>files := files w2 - {path}\<rparr>
           in case r of
                Inr res \<Rightarrow> (res, w3)
              | Inl e \<Rightarrow> handle_exn e w3))"

section \<open>The handlers\<close>

record update =
  user_id :: int
  mention_html :: py_str
  photo :: "nat list"
  caption :: "py_str option"

definition msg_unauthorized :: py_str where
  "msg_unauthorized = ascii ''Sorry, you are not authorized to use this bot.''"

definition msg_not_configured :: py_str where
  "msg_not_configured = ascii ''Printer is not configured. Please contact the administrator.''"

definition start :: "config \<Rightarrow> update \<Rightarrow> world \<Rightarrow> world" where
  "start cfg upd w =
     (if ALLOWED_USER_IDS cfg \<noteq> [] \<and> user_id upd \<notin> set (ALLOWED_USER_IDS cfg)
      then emit (ReplyText msg_unauthorized) (emit (Log WARNING) w)
      else emit (ReplyHtml (ascii ''Hi '' @ mention_html upd
                  @ ascii ''! Send me an image to print on the label printer.'')) w)"

text \<open>Lines 151 to 176 of \<open>handle_image\<close>, reached with a photo and a printer name.\<close>

definition print_photo ::
  "py_runtime \<Rightarrow> config \<Rightarrow> env \<Rightarrow> update \<Rightarrow> py_str \<Rightarrow> world \<Rightarrow> world" where
  "print_photo rt cfg en upd printer w =
     (let file_id = last (photo upd);
          file_bytes = download en file_id;
          w1 = emit (Download file_id) w;
          copies = parse_copies rt (caption upd);
          w2 = emit (ReplyText (ascii ''Received image. Resizing and preparing to print ''
                 @ str_int copies @ ascii '' cop''
                 @ (if copies = 1 then ascii ''y'' else ascii ''ies'') @ ascii ''...'')) w1;
          (resized, w3) = resize_image rt en file_bytes w2
      in case resized of
           None \<Rightarrow> emit (ReplyText (ascii ''Failed to process the image.'')) w3
         | Some (resized_image_buffer, image_format) \<Rightarrow>
             (let ((success, message), w4) =
                    print_image_cups cfg en resized_image_buffer printer copies image_format w3
              in if success
                 then emit (ReplyText (ascii ''Sent to printer! CUPS message: '' @ message))
                        (emit (Log INFO) w4)
                 else emit (ReplyText (ascii ''Failed to send to printer. Error: '' @ message))
                        (emit (Log ERROR) w4)))"

definition handle_image :: "py_runtime \<Rightarrow> config \<Rightarrow> env \<Rightarrow> update \<Rightarrow> world \<Rightarrow> world" where
  "handle_image rt cfg en upd w =
     (if ALLOWED_USER_IDS cfg \<noteq> [] \<and> user_id upd \<notin> set (ALLOWED_USER_IDS cfg)
      then emit (ReplyText msg_unauthorized) (emit (Log WARNING) w)
      else if photo upd = []
      then emit (ReplyText (ascii ''Please send an image file.'')) w
      else (case CUPS_PRINTER_NAME cfg of
              None \<Rightarrow> emit (ReplyText msg_not_configured) (emit (Log ERROR) w)
            | Some printer \<Rightarrow>
                if printer = []
                then emit (ReplyText msg_not_configured) (emit (Log ERROR) w)
                else print_photo rt cfg en upd printer w))"

section \<open>Notions used to state the properties\<close>

text \<open>
  The claim on the multiplier pattern, in its own words: the digits after the first
  \<open>x\<close> that is immediately followed by a decimal digit.
\<close>

fun first_x_digits :: "py_runtime \<Rightarrow> py_str \<Rightarrow> py_str option" where
  "first_x_digits rt [] = None"
| "first_x_digits rt (c # cs) =
     (if c = 120 \<and> takeWhile (is_decimal rt) cs \<noteq> [] then Some (takeWhile (is_decimal rt) cs)
      else first_x_digits rt cs)"

text \<open>
  \<open>copies_first rt pw s\<close>: the alternative \<open>\bcopies\s*=\s*(\d+)\<close> matches at a position
  of \<open>s\<close> to the left of every position where \<open>x(\d+)\<close> matches.
\<close>

fun copies_first :: "py_runtime \<Rightarrow> bool \<Rightarrow> py_str \<Rightarrow> bool" where
  "copies_first rt pw [] = False"
| "copies_first rt pw (c # cs) =
     (case alt_x rt (c # cs) of
        Some g \<Rightarrow> False
      | None \<Rightarrow> (case alt_copies rt pw (c # cs) of
                   Some g \<Rightarrow> True
                 | None \<Rightarrow> copies_first rt (is_word rt c) cs))"

text \<open>What a handler added to the trace, and the events that are work of a later stage.\<close>

definition new_events :: "world \<Rightarrow> world \<Rightarrow> event list" where
  "new_events w w' = drop (length (events w)) (events w')"

fun is_work :: "event \<Rightarrow> bool" where
  "is_work (Download f) = True"
| "is_work Resize = True"
| "is_work (Spawn cmd) = True"
| "is_work e = False"

fun is_reply :: "event \<Rightarrow> bool" where
  "is_reply (ReplyText m) = True"
| "is_reply (ReplyHtml m) = True"
| "is_reply e = False"

text \<open>
  Concrete inputs for the examples: a runtime whose tables know no character beyond
  ASCII, one that knows the superscript two (U+00B2, a digit that is not decimal), an
  environment whose print command fails as that of a missing printer does, and one
  whose print command exits with status zero after writing bytes that are no text.
\<close>

definition ascii_runtime :: py_runtime where
  "ascii_runtime = \<lparr>uc_class = (\<lambda>c. Other), uc_lower = (\<lambda>s i. [s ! i]),
                     int_max_str_digits = 4300\<rparr>"

definition superscript_runtime :: py_runtime where
  "superscript_runtime = \<lparr>uc_class = (\<lambda>c. if c = 178 then Digit else Other),
                           uc_lower = (\<lambda>s i. [s ! i]), int_max_str_digits = 4300\<rparr>"

definition failing_printer_env :: env where
  "failing_printer_env =
     \<lparr>download = (\<lambda>f. [255, 216, 255]),
      image_open = (\<lambda>b. Inr \<lparr>mode = ascii ''RGB'', width = 2400, height = 1800\<rparr>),
      image_thumbnail = (\<lambda>box img. Inr (img\<lparr>width := 1200, height := 900\<rparr>)),
      image_save = (\<lambda>img fmt. Inr [255, 216, 255]),
      tempfile_create = (\<lambda>suffix. Inr (ascii ''/tmp/tmpk3v9'' @ suffix)),
      tempfile_write = (\<lambda>path b. None),
      subprocess_run = (\<lambda>cmd. Exited 1 [] (ascii ''printer-not-found''))\<rparr>"

definition undecodable_output_env :: env where
  "undecodable_output_env =
     failing_printer_env\<lparr>subprocess_run :=
       (\<lambda>cmd. Undecodable 0 (ascii ''invalid start byte''))\<rparr>"

definition demo_config :: config where
  "demo_config = \<lparr>CUPS_PRINTER_NAME = Some (ascii ''label''), CUPS_SERVER_HOST = None,
                   ALLOWED_USER_IDS = [1001]\<rparr>"

definition demo_update :: update where
  "demo_update = \<lparr>user_id = 2002, mention_html = ascii ''guest'', photo = [7],
                   caption = Some (ascii ''x3'')\<rparr>"

definition empty_world :: world where
  "empty_world = \<lparr>files = {}, events = []\<rparr>"

definition unconfigured_config :: config where
  "unconfigured_config = \<lparr>CUPS_PRINTER_NAME = None, CUPS_SERVER_HOST = None,
                           ALLOWED_USER_IDS = [1001]\<rparr>"

definition member_update :: update where
  "member_update = \<lparr>user_id = 1001, mention_html = ascii ''owner'', photo = [7],
                     caption = None\<rparr>"

section \<open>Properties of the copy-count parser\<close>

lemmas class_defs = char_class_def is_decimal_def is_digit_def is_space_def is_word_def
  decimal_value_def

lemmas parse_defs = parse_copies_def re_search_def match_at_def alt_copies_def
  word_boundary_def digits_at_def py_lower_def lower_at_def py_int_def ascii_def

text \<open>
  C2. \<open>parse_copies\<close> returns an integer that is at least 1 for every caption, absent,
  empty or not, whatever the interpreter's character tables and digit limit are. The
  only exception that can arise inside it, the \<open>ValueError\<close> of \<open>int\<close>, is caught, so
  the function is a total function to the integers.
\<close>

theorem parse_copies_ge_1: "1 \<le> parse_copies rt c"
  by (simp add: parse_copies_def split: option.split sum.split value_error.split)

theorem parse_copies_ge_1_witness:
  "parse_copies ascii_runtime (Some (ascii ''x0'')) = 1 \<and> 1 \<le> parse_copies ascii_runtime None"
  using parse_copies_ge_1 [of ascii_runtime None]
  by (simp add: parse_defs class_defs upt_rec)

text \<open>
  C8. The seven input/output pairs of the specification: \<open>"x3"\<close> gives 3,
  \<open>"copies=2"\<close> gives 2, \<open>"COPIES = 5"\<close> gives 5, the empty string and an absent
  caption give 1, \<open>"x0"\<close> gives 1 and \<open>"hello"\<close> gives 1.
\<close>

theorem parse_copies_examples:
  "parse_copies rt (Some (ascii ''x3'')) = 3 \<and>
   parse_copies rt (Some (ascii ''copies=2'')) = 2 \<and>
   parse_copies rt (Some (ascii ''COPIES = 5'')) = 5 \<and>
   parse_copies rt (Some (ascii [])) = 1 \<and>
   parse_copies rt None = 1 \<and>
   parse_copies rt (Some (ascii ''x0'')) = 1 \<and>
   parse_copies rt (Some (ascii ''hello'')) = 1"
proof -
  have a: "parse_copies rt (Some (ascii ''x3'')) = 3"
    by (simp add: parse_defs class_defs upt_rec)
  have b: "parse_copies rt (Some (ascii ''copies=2'')) = 2"
    by (simp add: parse_defs class_defs upt_rec)
  have c: "parse_copies rt (Some (ascii ''COPIES = 5'')) = 5"
    by (simp add: parse_defs class_defs upt_rec)
  have d: "parse_copies rt (Some (ascii [])) = 1"
    by (simp add: parse_defs)
  have e: "parse_copies rt None = 1"
    by (simp add: parse_defs)
  have f: "parse_copies rt (Some (ascii ''x0'')) = 1"
    by (simp add: parse_defs class_defs upt_rec)
  have g: "parse_copies rt (Some (ascii ''hello'')) = 1"
    by (simp add: parse_defs class_defs upt_rec)
  from a b c d e f g show ?thesis by blast
qed

theorem parse_copies_examples_witness:
  "parse_copies superscript_runtime (Some (ascii ''COPIES = 5'')) = 5 \<and>
   parse_copies superscript_runtime (Some (ascii ''x0'')) = 1"
  using parse_copies_examples [of superscript_runtime] by simp

text \<open>
  Where no match of the \<open>copies\<close> alternative starts first, the search returns the
  digits after the first \<open>x\<close> that has a digit behind it.
\<close>

lemma search_from_first_x:
  "\<not> copies_first rt pw s \<Longrightarrow> search_from rt pw s = first_x_digits rt s"
proof (induction s arbitrary: pw)
  case Nil
  show ?case by (simp add: match_at_def alt_copies_def ascii_def)
next
  case (Cons c cs)
  show ?case
  proof (cases "alt_x rt (c # cs)")
    case (Some g)
    then show ?thesis
      by (auto simp: match_at_def digits_at_def Let_def split: if_splits)
  next
    case None
    with Cons.prems have nc: "alt_copies rt pw (c # cs) = None"
      and rest: "\<not> copies_first rt (is_word rt c) cs"
      by (auto split: option.splits)
    from None have "first_x_digits rt (c # cs) = first_x_digits rt cs"
      by (auto simp: digits_at_def Let_def split: if_splits)
    moreover from None nc have "search_from rt pw (c # cs) = search_from rt (is_word rt c) cs"
      by (simp add: match_at_def)
    ultimately show ?thesis using Cons.IH [OF rest] by simp
  qed
qed

text \<open>
  C10, as stated, fails: in the caption \<open>"copies=2 x3"\<close> the first \<open>x\<close> followed by a
  digit is that of \<open>x3\<close>, and the parser returns 2, since the \<open>copies\<close> alternative
  matches further left.
\<close>

theorem first_x_counterexample:
  "first_x_digits ascii_runtime (py_lower ascii_runtime (ascii ''copies=2 x3''))
     = Some (ascii ''3'') \<and>
   parse_copies ascii_runtime (Some (ascii ''copies=2 x3'')) = 2"
  by (simp add: parse_defs class_defs ascii_runtime_def upt_rec)

text \<open>
  C10, amended. The multiplier pattern has no word boundary before \<open>x\<close>: for every
  caption in whose lowercased text no match of \<open>copies=N\<close> starts to the left of it,
  the first \<open>x\<close> immediately followed by decimal digits decides the result, also inside
  a longer word. The result is the number these digits spell, raised to 1 if it is 0,
  and 1 if \<open>int\<close> refuses the digits for their length. The caption \<open>"box3"\<close> gives 3.
\<close>

theorem first_x_determines:
  "(\<not> copies_first rt False (py_lower rt cap) \<longrightarrow>
    first_x_digits rt (py_lower rt cap) = Some ds \<longrightarrow>
    parse_copies rt (Some cap) = (case py_int rt ds of Inr n \<Rightarrow> max 1 n | Inl e \<Rightarrow> 1))
   \<and> parse_copies rt (Some (ascii ''box3'')) = 3"
proof (intro conjI impI)
  assume nc: "\<not> copies_first rt False (py_lower rt cap)"
    and fx: "first_x_digits rt (py_lower rt cap) = Some ds"
  have ne: "cap \<noteq> []"
  proof
    assume "cap = []"
    with fx show False by (simp add: py_lower_def)
  qed
  from nc fx have "re_search rt (py_lower rt cap) = Some ds"
    by (simp add: re_search_def search_from_first_x)
  with ne show "parse_copies rt (Some cap) = (case py_int rt ds of Inr n \<Rightarrow> max 1 n | Inl e \<Rightarrow> 1)"
    by (simp add: parse_copies_def split: sum.split value_error.split)
next
  show "parse_copies rt (Some (ascii ''box3'')) = 3"
    by (simp add: parse_defs class_defs upt_rec)
qed

theorem first_x_determines_witness:
  "\<not> copies_first ascii_runtime False (py_lower ascii_runtime (ascii ''Tax12 copies=4'')) \<and>
   first_x_digits ascii_runtime (py_lower ascii_runtime (ascii ''Tax12 copies=4''))
     = Some (ascii ''12'') \<and>
   parse_copies ascii_runtime (Some (ascii ''Tax12 copies=4'')) = 12"
proof -
  have h1: "\<not> copies_first ascii_runtime False (py_lower ascii_runtime (ascii ''Tax12 copies=4''))"
    by (simp add: parse_defs class_defs ascii_runtime_def upt_rec)
  have h2: "first_x_digits ascii_runtime (py_lower ascii_runtime (ascii ''Tax12 copies=4''))
              = Some (ascii ''12'')"
    by (simp add: parse_defs class_defs ascii_runtime_def upt_rec)
  have h3: "py_int ascii_runtime (ascii ''12'') = Inr 12"
    by (simp add: parse_defs class_defs ascii_runtime_def)
  from first_x_determines [of ascii_runtime "ascii ''Tax12 copies=4''" "ascii ''12''"] h1 h2 h3
  have "parse_copies ascii_runtime (Some (ascii ''Tax12 copies=4'')) = 12"
    by simp
  with h1 h2 show ?thesis by blast
qed

section \<open>Properties of the allow-list\<close>

text \<open>
  What lines 25 and 26 do with well-formed and ill-formed fields: fields with a
  character that is no digit (names, a sign, a blank) and empty fields are dropped,
  fields of ASCII digits are converted, and where no field passes \<open>isdigit\<close> the list
  is empty.
\<close>

lemma no_digit_field_open_access:
  "list_all (\<lambda>f. \<not> isdigit rt f) (split_sep 44 (case var of None \<Rightarrow> [] | Some s \<Rightarrow> s)) \<Longrightarrow>
   load_allowed_user_ids rt var = Inr []"
  by (simp add: load_allowed_user_ids_def Let_def list_all_iff filter_empty_conv[THEN iffD2])

lemma dropped_fields_example:
  "load_allowed_user_ids rt (Some (ascii ''alice,-5, 7,bob,'')) = Inr []"
  by (simp add: load_allowed_user_ids_def isdigit_def ascii_def class_defs)

lemma kept_fields_example:
  "load_allowed_user_ids rt (Some (ascii ''1001,x,007'')) = Inr [1001, 7]"
  by (simp add: load_allowed_user_ids_def isdigit_def ascii_def class_defs py_int_def)

lemma superscript_field_raises:
  "uc_class rt 178 = Digit \<Longrightarrow> load_allowed_user_ids rt (Some [178]) = Inl ValueError"
  by (simp add: load_allowed_user_ids_def isdigit_def class_defs py_int_def)

text \<open>
  A configuration string of ASCII characters whose fields are at most 640 characters
  long always loads: every field that passes \<open>isdigit\<close> is converted.
\<close>

lemma split_sep_chars: "f \<in> set (split_sep sep s) \<Longrightarrow> set f \<subseteq> set s"
proof (induction s arbitrary: f)
  case Nil
  then show ?case by simp
next
  case (Cons c cs)
  show ?case
  proof (cases "c = sep")
    case True
    with Cons show ?thesis by auto
  next
    case False
    show ?thesis
    proof (cases "split_sep sep cs")
      case Nil
      with False Cons.prems show ?thesis by auto
    next
      case (Cons g gs)
      have g: "set g \<subseteq> set cs" using Cons.IH [of g] Cons by simp
      have gs: "h \<in> set gs \<Longrightarrow> set h \<subseteq> set cs" for h
        using Cons.IH [of h] Cons by simp
      from False Cons Cons.prems have "f = c # g \<or> f \<in> set gs" by simp
      with g gs show ?thesis by auto
    qed
  qed
qed

lemma ascii_digit_decimal: "c < 128 \<Longrightarrow> is_digit rt c = is_decimal rt c"
  by (simp add: is_digit_def is_decimal_def char_class_def)

lemma int_each_ok:
  "list_all (\<lambda>f. \<exists>n. py_int rt f = Inr n) fs \<Longrightarrow>
   \<exists>ids. int_each rt fs = Inr ids \<and> length ids = length fs"
  by (induction fs) auto

lemma ascii_config_loads:
  assumes asc: "list_all (\<lambda>c. c < 128) s"
    and short: "list_all (\<lambda>f. length f \<le> 640) (split_sep 44 s)"
  shows "\<exists>ids. load_allowed_user_ids rt (Some s) = Inr ids
           \<and> length ids = length (filter (isdigit rt) (split_sep 44 s))"
proof -
  have "\<exists>n. py_int rt f = Inr n" if f: "f \<in> set (split_sep 44 s)" and d: "isdigit rt f" for f
  proof -
    from split_sep_chars [OF f] asc have "\<forall>c\<in>set f. c < 128"
      by (auto simp: list_all_iff)
    with d have "f \<noteq> [] \<and> list_all (is_decimal rt) f"
      by (auto simp: isdigit_def list_all_iff ascii_digit_decimal)
    moreover from short f have "length f \<le> 640" by (auto simp: list_all_iff)
    ultimately show ?thesis by (simp add: py_int_def)
  qed
  then have "list_all (\<lambda>f. \<exists>n. py_int rt f = Inr n) (filter (isdigit rt) (split_sep 44 s))"
    by (auto simp: list_all_iff)
  from int_each_ok [OF this] show ?thesis
    by (simp add: load_allowed_user_ids_def)
qed

text \<open>
  C9. The claim is that a field with a character that is no decimal digit is dropped
  in silence, and that the fields kept are converted to integers. The code filters with
  \<open>isdigit\<close> and converts with \<open>int\<close>, and the two disagree on digits that are not
  decimal: the field made of the superscript two (U+00B2) passes the filter, and its
  conversion raises \<open>ValueError\<close> while the module is loaded, alone or next to a valid
  field.
\<close>

theorem allowed_user_ids_superscript:
  "load_allowed_user_ids superscript_runtime (Some [178]) = Inl ValueError \<and>
   load_allowed_user_ids superscript_runtime (Some (ascii ''1001,'' @ [178])) = Inl ValueError"
  by (simp add: load_allowed_user_ids_def isdigit_def class_defs py_int_def ascii_def
        superscript_runtime_def)

section \<open>Properties of the normalizer\<close>

text \<open>The bounding box handed to \<open>Image.thumbnail\<close>.\<close>

lemma label_box: "LABEL_WIDTH_PX = 1200 \<and> LABEL_HEIGHT_PX = 1800"
  by (simp add: LABEL_WIDTH_PX_def LABEL_HEIGHT_PX_def LABEL_WIDTH_INCHES_def
        LABEL_HEIGHT_INCHES_def IMAGE_DPI_def)

text \<open>
  C4. The claim is that an image with an alpha channel or a palette is written as PNG
  and any other image as JPEG. Line 55 tests for the mode name \<open>RGBA\<close> and for the
  letter \<open>P\<close> in the mode name, which misses the mode \<open>LA\<close> (greyscale with alpha):
  for it the code chooses JPEG. For \<open>RGBA\<close> and \<open>P\<close> it chooses PNG and for \<open>RGB\<close>
  JPEG, as claimed.
\<close>

theorem format_selection_modes:
  "img_format (ascii ''LA'') = ascii ''JPEG'' \<and>
   img_format (ascii ''RGBA'') = ascii ''PNG'' \<and>
   img_format (ascii ''P'') = ascii ''PNG'' \<and>
   img_format (ascii ''RGB'') = ascii ''JPEG''"
  by (simp add: img_format_def ascii_def)

text \<open>
  What follows for such an image: the normalizer asks the library to save it as JPEG,
  and if the library refuses (the JPEG encoder has no alpha channel), the result is the
  failure value.
\<close>

lemma resize_image_LA:
  "image_open en b = Inr img0 \<Longrightarrow>
   image_thumbnail en (1200, 1800) img0 = Inr img \<Longrightarrow>
   mode img = ascii ''LA'' \<Longrightarrow>
   image_save en img (ascii ''JPEG'') = Inl e \<Longrightarrow>
   fst (resize_image rt en b w) = None"
  by (simp add: resize_image_def Let_def label_box img_format_def ascii_def)

section \<open>Properties of the print dispatcher\<close>

lemma events_emit: "events (emit e w) = events w @ [e]"
  by (simp add: emit_def)

lemma files_emit: "files (emit e w) = files w"
  by (simp add: emit_def)

lemma no_reply_not_mem: "list_all (\<lambda>e. \<not> is_reply e) evs \<Longrightarrow> ReplyText m \<notin> set evs"
  by (auto simp: list_all_iff)

text \<open>Neither the \<open>except\<close> clauses nor the body of the \<open>with\<close> statement touch the disk.\<close>

lemma handle_exn_world:
  "files (snd (handle_exn e w)) = files w \<and>
   (\<exists>evs. events (snd (handle_exn e w)) = events w @ evs \<and> list_all (\<lambda>e. e = Log ERROR) evs)"
  by (cases e) (simp_all add: events_emit files_emit)

lemma with_body_world:
  "files (snd (with_body en cmd buf path w)) = files w \<and>
   (\<exists>evs. events (snd (with_body en cmd buf path w)) = events w @ evs
          \<and> list_all (\<lambda>e. \<not> is_reply e) evs)"
  by (simp add: with_body_def events_emit files_emit Let_def
           split: option.split run_result.split)

lemma print_image_cups_files:
  "files (snd (print_image_cups cfg en buf printer copies fmt w)) =
     (case tempfile_create en (ascii ''.'' @ fmt) of
        Inl e \<Rightarrow> files w
      | Inr path \<Rightarrow> files w - {path})"
proof (cases "tempfile_create en (ascii ''.'' @ fmt)")
  case (Inl e)
  then show ?thesis
    using handle_exn_world [of e w] by (simp add: print_image_cups_def)
next
  case (Inr path)
  let ?w1 = "w\<lparr>files := insert path (files w)\<rparr>"
  obtain r w2 where wb: "with_body en (lp_command cfg printer copies) buf path ?w1 = (r, w2)"
    by (cases "with_body en (lp_command cfg printer copies) buf path ?w1")
  have f2: "files w2 = insert path (files w)"
    using with_body_world [of en "lp_command cfg printer copies" buf path ?w1] wb by simp
  let ?w3 = "w2\<lparr>files := files w2 - {path}\<rparr>"
  have f3: "files ?w3 = files w - {path}" using f2 by auto
  show ?thesis
  proof (cases r)
    case (Inl e)
    with Inr wb f3 show ?thesis
      using handle_exn_world [of e ?w3] by (simp add: print_image_cups_def)
  next
    case (Inr res)
    with \<open>tempfile_create en (ascii ''.'' @ fmt) = Inr path\<close> wb f3 show ?thesis
      by (simp add: print_image_cups_def)
  qed
qed

text \<open>
  C5. Whatever the outcome of the attempt (the write fails, the command cannot be
  run, it exits with zero or with another status), the temporary file that
  \<open>print_image_cups\<close> created is not on disk when the call returns, and no other file
  has appeared or gone.
\<close>

theorem tempfile_removed:
  "tempfile_create en (ascii ''.'' @ fmt) = Inr path \<Longrightarrow>
   path \<notin> files (snd (print_image_cups cfg en buf printer copies fmt w)) \<and>
   files (snd (print_image_cups cfg en buf printer copies fmt w)) = files w - {path}"
  by (simp add: print_image_cups_files)

theorem tempfile_removed_witness:
  "tempfile_create failing_printer_env (ascii ''.'' @ ascii ''jpeg'')
     = Inr (ascii ''/tmp/tmpk3v9.jpeg'') \<and>
   ascii ''/tmp/tmpk3v9.jpeg'' \<notin> files (snd (print_image_cups demo_config failing_printer_env
       [255, 216, 255] (ascii ''label'') 3 (ascii ''jpeg'') empty_world))"
proof -
  have a: "tempfile_create failing_printer_env (ascii ''.'' @ ascii ''jpeg'')
             = Inr (ascii ''/tmp/tmpk3v9.jpeg'')"
    by (simp add: failing_printer_env_def ascii_def)
  from tempfile_removed [OF a] a show ?thesis by blast
qed

text \<open>
  C6, as stated, fails: a print command that exits with status zero after writing
  output that cannot be decoded as text makes \<open>subprocess.run\<close> raise, and
  \<open>print_image_cups\<close> returns failure with the message of that exception.
\<close>

theorem exit_zero_counterexample:
  "subprocess_run undecodable_output_env
       (lp_command demo_config (ascii ''label'') 3 @ [ascii ''/tmp/tmpk3v9.jpeg''])
     = Undecodable 0 (ascii ''invalid start byte'') \<and>
   fst (print_image_cups demo_config undecodable_output_env [255, 216, 255] (ascii ''label'') 3
          (ascii ''jpeg'') empty_world) = (False, ascii ''invalid start byte'')"
  by (simp add: print_image_cups_def with_body_def Let_def undecodable_output_env_def
        failing_printer_env_def ascii_def)

text \<open>
  C6, amended. Once the temporary file is written, the result of \<open>print_image_cups\<close>
  follows the print command: success with its standard output when it exits with status
  zero and its captured output decodes as text, failure with its standard error when it
  exits with another status and the output decodes, and failure with the message of the
  exception when \<open>subprocess.run\<close> raises anything else, be it that the command could
  not be run or that its output could not be decoded. The function returns a pair in
  every case: no exception leaves it.
\<close>

theorem print_image_cups_result:
  "tempfile_create en (ascii ''.'' @ fmt) = Inr path \<Longrightarrow>
   tempfile_write en path buf = None \<Longrightarrow>
   fst (print_image_cups cfg en buf printer copies fmt w) =
     (case subprocess_run en (lp_command cfg printer copies @ [path]) of
        Exited rc out err \<Rightarrow> if rc = 0 then (True, out) else (False, err)
      | Undecodable rc msg \<Rightarrow> (False, msg)
      | NotRun msg \<Rightarrow> (False, msg))"
  by (simp add: print_image_cups_def with_body_def Let_def split: run_result.split)

theorem print_image_cups_result_witness:
  "tempfile_create failing_printer_env (ascii ''.'' @ ascii ''jpeg'')
     = Inr (ascii ''/tmp/tmpk3v9.jpeg'') \<and>
   tempfile_write failing_printer_env (ascii ''/tmp/tmpk3v9.jpeg'') [255, 216, 255] = None \<and>
   fst (print_image_cups demo_config failing_printer_env [255, 216, 255] (ascii ''label'') 3
          (ascii ''jpeg'') empty_world) = (False, ascii ''printer-not-found'')"
proof -
  have a: "tempfile_create failing_printer_env (ascii ''.'' @ ascii ''jpeg'')
             = Inr (ascii ''/tmp/tmpk3v9.jpeg'')"
    by (simp add: failing_printer_env_def ascii_def)
  have b: "tempfile_write failing_printer_env (ascii ''/tmp/tmpk3v9.jpeg'') [255, 216, 255] = None"
    by (simp add: failing_printer_env_def)
  have c: "subprocess_run failing_printer_env cmd = Exited 1 [] (ascii ''printer-not-found'')" for cmd
    by (simp add: failing_printer_env_def)
  from print_image_cups_result [OF a b, of demo_config "ascii ''label''" 3 empty_world] a b c
  show ?thesis by simp
qed

text \<open>Success is reported only for a print command that exited with status zero.\<close>

lemma handle_exn_False: "\<not> fst (fst (handle_exn e w))"
  by (cases e) simp_all

lemma success_only_on_exit_zero:
  "fst (fst (print_image_cups cfg en buf printer copies fmt w)) \<Longrightarrow>
   \<exists>path out err. tempfile_create en (ascii ''.'' @ fmt) = Inr path \<and>
     subprocess_run en (lp_command cfg printer copies @ [path]) = Exited 0 out err"
  by (auto simp: print_image_cups_def with_body_def Let_def handle_exn_False
           split: sum.splits option.splits run_result.splits if_splits prod.splits)

text \<open>No stage below the handler replies to the chat.\<close>

lemma print_image_cups_events:
  "\<exists>evs. events (snd (print_image_cups cfg en buf printer copies fmt w)) = events w @ evs
         \<and> list_all (\<lambda>e. \<not> is_reply e) evs"
proof (cases "tempfile_create en (ascii ''.'' @ fmt)")
  case (Inl e)
  obtain evs where "events (snd (handle_exn e w)) = events w @ evs"
    and "list_all (\<lambda>e. e = Log ERROR) evs"
    using handle_exn_world [of e w] by blast
  then have "events (snd (handle_exn e w)) = events w @ evs \<and> list_all (\<lambda>e. \<not> is_reply e) evs"
    by (auto simp: list_all_iff)
  with Inl show ?thesis by (auto simp add: print_image_cups_def)
next
  case (Inr path)
  let ?w1 = "w\<lparr>files := insert path (files w)\<rparr>"
  obtain r w2 where wb: "with_body en (lp_command cfg printer copies) buf path ?w1 = (r, w2)"
    by (cases "with_body en (lp_command cfg printer copies) buf path ?w1")
  obtain evs where e2: "events w2 = events w @ evs" and n2: "list_all (\<lambda>e. \<not> is_reply e) evs"
    using with_body_world [of en "lp_command cfg printer copies" buf path ?w1] wb by auto
  let ?w3 = "w2\<lparr>files := files w2 - {path}\<rparr>"
  show ?thesis
  proof (cases r)
    case (Inl e)
    obtain evs' where e3: "events (snd (handle_exn e ?w3)) = events ?w3 @ evs'"
      and n3: "list_all (\<lambda>e. e = Log ERROR) evs'"
      using handle_exn_world [of e ?w3] by blast
    from e3 e2 have "events (snd (handle_exn e ?w3)) = events w @ (evs @ evs')" by simp
    moreover from n2 n3 have "list_all (\<lambda>e. \<not> is_reply e) (evs @ evs')"
      by (auto simp: list_all_iff)
    moreover from Inl Inr wb have
      "print_image_cups cfg en buf printer copies fmt w = handle_exn e ?w3"
      by (simp add: print_image_cups_def)
    ultimately show ?thesis by metis
  next
    case (Inr res)
    with \<open>tempfile_create en (ascii ''.'' @ fmt) = Inr path\<close> wb have
      "print_image_cups cfg en buf printer copies fmt w = (res, ?w3)"
      by (simp add: print_image_cups_def)
    with e2 n2 show ?thesis by auto
  qed
qed

lemma resize_image_world:
  "files (snd (resize_image rt en b w)) = files w \<and>
   (\<exists>evs. events (snd (resize_image rt en b w)) = events w @ evs
          \<and> list_all (\<lambda>e. \<not> is_reply e) evs)"
  by (simp add: resize_image_def events_emit files_emit Let_def split: sum.split)

section \<open>Properties of the handlers\<close>

lemma unauthorized_distinct:
  "msg_unauthorized \<noteq> ascii ''Received image. Resizing and preparing to print '' @ a"
  "msg_unauthorized \<noteq> ascii ''Failed to process the image.''"
  "msg_unauthorized \<noteq> ascii ''Sent to printer! CUPS message: '' @ b"
  "msg_unauthorized \<noteq> ascii ''Failed to send to printer. Error: '' @ b"
  "msg_unauthorized \<noteq> ascii ''Please send an image file.''"
  "msg_unauthorized \<noteq> msg_not_configured"
  by (simp_all add: msg_unauthorized_def msg_not_configured_def ascii_def)

text \<open>The stages after the checks never send the rejection message.\<close>

lemma print_photo_events:
  "\<exists>evs. events (print_photo rt cfg en upd printer w) = events w @ evs
         \<and> ReplyText msg_unauthorized \<notin> set evs"
proof -
  let ?f = "last (photo upd)"
  let ?copies = "parse_copies rt (caption upd)"
  let ?m = "ascii ''Received image. Resizing and preparing to print ''
                 @ str_int ?copies @ ascii '' cop''
                 @ (if ?copies = 1 then ascii ''y'' else ascii ''ies'') @ ascii ''...''"
  let ?w2 = "emit (ReplyText ?m) (emit (Download ?f) w)"
  have e2: "events ?w2 = events w @ [Download ?f, ReplyText ?m]"
    by (simp add: events_emit)
  have m_ne: "msg_unauthorized \<noteq> ?m"
    by (rule unauthorized_distinct(1))
  obtain resized w3 where rs: "resize_image rt en (download en ?f) ?w2 = (resized, w3)"
    by (cases "resize_image rt en (download en ?f) ?w2")
  obtain evs3 where e3: "events w3 = events ?w2 @ evs3"
    and n3: "list_all (\<lambda>e. \<not> is_reply e) evs3"
    using resize_image_world [of rt en "download en ?f" ?w2] rs by auto
  show ?thesis
  proof (cases resized)
    case None
    with rs have "print_photo rt cfg en upd printer w
        = emit (ReplyText (ascii ''Failed to process the image.'')) w3"
      by (simp add: print_photo_def Let_def)
    then have "events (print_photo rt cfg en upd printer w)
        = events w @ ([Download ?f, ReplyText ?m] @ evs3
            @ [ReplyText (ascii ''Failed to process the image.'')])"
      using e2 e3 by (simp add: events_emit)
    moreover have "ReplyText msg_unauthorized \<notin> set ([Download ?f, ReplyText ?m] @ evs3
            @ [ReplyText (ascii ''Failed to process the image.'')])"
      using m_ne no_reply_not_mem [OF n3] unauthorized_distinct(2) by auto
    ultimately show ?thesis by blast
  next
    case (Some bf)
    obtain buf fmt where bf: "bf = (buf, fmt)" by (cases bf)
    obtain success message w4 where
      pr: "print_image_cups cfg en buf printer ?copies fmt w3 = ((success, message), w4)"
      by (cases "print_image_cups cfg en buf printer ?copies fmt w3") auto
    obtain evs4 where e4: "events w4 = events w3 @ evs4"
      and n4: "list_all (\<lambda>e. \<not> is_reply e) evs4"
      using print_image_cups_events [of cfg en buf printer ?copies fmt w3] pr by auto
    let ?last = "if success
                 then [Log INFO, ReplyText (ascii ''Sent to printer! CUPS message: '' @ message)]
                 else [Log ERROR, ReplyText (ascii ''Failed to send to printer. Error: '' @ message)]"
    from Some bf rs pr have "events (print_photo rt cfg en upd printer w) = events w4 @ ?last"
      by (simp add: print_photo_def Let_def events_emit)
    then have "events (print_photo rt cfg en upd printer w)
        = events w @ ([Download ?f, ReplyText ?m] @ evs3 @ evs4 @ ?last)"
      using e2 e3 e4 by simp
    moreover have "ReplyText msg_unauthorized \<notin> set ([Download ?f, ReplyText ?m] @ evs3 @ evs4 @ ?last)"
      using m_ne no_reply_not_mem [OF n3] no_reply_not_mem [OF n4]
        unauthorized_distinct(3) unauthorized_distinct(4) by auto
    ultimately show ?thesis by blast
  qed
qed

text \<open>
  C1. Both handlers decide on the sender in the same way. A sender is admitted if the
  allow-list is empty or holds the sender's identity: \<open>start\<close> then sends the welcome
  message and nothing else, and \<open>handle_image\<close> never sends the rejection. Every other
  sender is denied: each handler logs a warning, sends the rejection and stops there, so
  that nothing of the later stages (no other reply, no download, no normalization, no
  print command, no file) happens.
\<close>

theorem authorization_gate:
  "(ALLOWED_USER_IDS cfg = [] \<or> user_id upd \<in> set (ALLOWED_USER_IDS cfg) \<longrightarrow>
      new_events w (start cfg upd w)
        = [ReplyHtml (ascii ''Hi '' @ mention_html upd
             @ ascii ''! Send me an image to print on the label printer.'')] \<and>
      ReplyText msg_unauthorized \<notin> set (new_events w (handle_image rt cfg en upd w)))
   \<and>
   (\<not> (ALLOWED_USER_IDS cfg = [] \<or> user_id upd \<in> set (ALLOWED_USER_IDS cfg)) \<longrightarrow>
      new_events w (start cfg upd w) = [Log WARNING, ReplyText msg_unauthorized] \<and>
      new_events w (handle_image rt cfg en upd w) = [Log WARNING, ReplyText msg_unauthorized] \<and>
      files (start cfg upd w) = files w \<and>
      files (handle_image rt cfg en upd w) = files w)"
proof (intro conjI impI)
  assume ok: "ALLOWED_USER_IDS cfg = [] \<or> user_id upd \<in> set (ALLOWED_USER_IDS cfg)"
  then show "new_events w (start cfg upd w)
        = [ReplyHtml (ascii ''Hi '' @ mention_html upd
             @ ascii ''! Send me an image to print on the label printer.'')]"
    by (auto simp: start_def new_events_def events_emit)
  show "ReplyText msg_unauthorized \<notin> set (new_events w (handle_image rt cfg en upd w))"
  proof (cases "photo upd = []")
    case True
    with ok show ?thesis
      using unauthorized_distinct(5)
      by (auto simp: handle_image_def new_events_def events_emit)
  next
    case False
    show ?thesis
    proof (cases "truthy (CUPS_PRINTER_NAME cfg)")
      case False
      with ok \<open>photo upd \<noteq> []\<close> show ?thesis
        using unauthorized_distinct(6)
        by (auto simp: handle_image_def new_events_def events_emit truthy_def
                 split: option.splits)
    next
      case True
      then obtain printer where p: "CUPS_PRINTER_NAME cfg = Some printer" "printer \<noteq> []"
        by (auto simp: truthy_def split: option.splits)
      with ok \<open>photo upd \<noteq> []\<close> have
        "handle_image rt cfg en upd w = print_photo rt cfg en upd printer w"
        by (auto simp: handle_image_def)
      then show ?thesis
        using print_photo_events [of rt cfg en upd printer w]
        by (auto simp: new_events_def)
    qed
  qed
next
  assume no: "\<not> (ALLOWED_USER_IDS cfg = [] \<or> user_id upd \<in> set (ALLOWED_USER_IDS cfg))"
  then show "new_events w (start cfg upd w) = [Log WARNING, ReplyText msg_unauthorized]"
    by (simp add: start_def new_events_def events_emit)
  from no show "new_events w (handle_image rt cfg en upd w) = [Log WARNING, ReplyText msg_unauthorized]"
    by (simp add: handle_image_def new_events_def events_emit)
  from no show "files (start cfg upd w) = files w"
    by (simp add: start_def files_emit)
  from no show "files (handle_image rt cfg en upd w) = files w"
    by (simp add: handle_image_def files_emit)
qed

theorem authorization_gate_witness:
  "new_events empty_world (start demo_config demo_update empty_world)
     = [Log WARNING, ReplyText msg_unauthorized] \<and>
   new_events empty_world
       (handle_image ascii_runtime demo_config failing_printer_env demo_update empty_world)
     = [Log WARNING, ReplyText msg_unauthorized] \<and>
   new_events empty_world (start demo_config member_update empty_world)
     = [ReplyHtml (ascii ''Hi owner! Send me an image to print on the label printer.'')] \<and>
   ReplyText msg_unauthorized \<notin> set (new_events empty_world
       (handle_image ascii_runtime demo_config failing_printer_env member_update empty_world))"
proof -
  have denied: "\<not> (ALLOWED_USER_IDS demo_config = []
                     \<or> user_id demo_update \<in> set (ALLOWED_USER_IDS demo_config))"
    by (simp add: demo_config_def demo_update_def)
  have admitted: "ALLOWED_USER_IDS demo_config = []
                     \<or> user_id member_update \<in> set (ALLOWED_USER_IDS demo_config)"
    by (simp add: demo_config_def member_update_def)
  have name: "ascii ''Hi '' @ mention_html member_update
                @ ascii ''! Send me an image to print on the label printer.''
              = ascii ''Hi owner! Send me an image to print on the label printer.''"
    by (simp add: member_update_def ascii_def)
  from authorization_gate [of demo_config demo_update empty_world ascii_runtime failing_printer_env]
    denied
  have a: "new_events empty_world (start demo_config demo_update empty_world)
             = [Log WARNING, ReplyText msg_unauthorized]"
    and b: "new_events empty_world
              (handle_image ascii_runtime demo_config failing_printer_env demo_update empty_world)
             = [Log WARNING, ReplyText msg_unauthorized]"
    by blast+
  from authorization_gate [of demo_config member_update empty_world ascii_runtime failing_printer_env]
    admitted name
  have c: "new_events empty_world (start demo_config member_update empty_world)
      = [ReplyHtml (ascii ''Hi owner! Send me an image to print on the label printer.'')]"
    and d: "ReplyText msg_unauthorized \<notin> set (new_events empty_world
       (handle_image ascii_runtime demo_config failing_printer_env member_update empty_world))"
    by simp_all
  from a b c d show ?thesis by blast
qed

text \<open>
  C7. When no printer name is configured (the variable is unset or empty),
  \<open>handle_image\<close> returns before any download, normalization or print command, so no
  process is spawned; it sends exactly one reply and leaves the disk as it was. For the
  requests that reach the printer check, those of an admitted sender whose message
  carries a photo, it logs an error and that reply is the configuration-error message.
\<close>

theorem not_configured_no_work:
  "\<not> truthy (CUPS_PRINTER_NAME cfg) \<Longrightarrow>
   list_all (\<lambda>e. \<not> is_work e) (new_events w (handle_image rt cfg en upd w)) \<and>
   length (filter is_reply (new_events w (handle_image rt cfg en upd w))) = 1 \<and>
   files (handle_image rt cfg en upd w) = files w \<and>
   ((ALLOWED_USER_IDS cfg = [] \<or> user_id upd \<in> set (ALLOWED_USER_IDS cfg)) \<and> photo upd \<noteq> []
      \<longrightarrow> new_events w (handle_image rt cfg en upd w)
            = [Log ERROR, ReplyText msg_not_configured])"
  by (auto simp: handle_image_def truthy_def new_events_def events_emit files_emit
           split: option.splits)

theorem not_configured_no_work_witness:
  "\<not> truthy (CUPS_PRINTER_NAME unconfigured_config) \<and>
   new_events empty_world
       (handle_image ascii_runtime unconfigured_config failing_printer_env member_update empty_world)
     = [Log ERROR, ReplyText msg_not_configured] \<and>
   files (handle_image ascii_runtime unconfigured_config failing_printer_env member_update
            empty_world) = {}"
proof -
  have a: "\<not> truthy (CUPS_PRINTER_NAME unconfigured_config)"
    by (simp add: truthy_def unconfigured_config_def)
  have b: "(ALLOWED_USER_IDS unconfigured_config = []
             \<or> user_id member_update \<in> set (ALLOWED_USER_IDS unconfigured_config))
           \<and> photo member_update \<noteq> []"
    by (simp add: unconfigured_config_def member_update_def)
  have c: "files empty_world = {}" by (simp add: empty_world_def)
  from not_configured_no_work [OF a, of empty_world ascii_runtime failing_printer_env member_update]
    a b c show ?thesis by simp
qed

end
